theory Spec2Isabelle
  imports Main
begin

section \<open>The generic test handler of the EPI judge (generic_test_handler.h)\<close>

text \<open>
  The class template \<open>GenericTestHandler<Function, Comparator>\<close> checks the header of a
  test-data table against the tested function, and runs the function on each row.
  Everything the class does beyond computing a value is explicit here: an exception is an
  outcome \<open>Throws\<close>, a read outside a vector is the outcome \<open>Undefined\<close>, the steady
  clock and the calls of the tested function are fields of a world that is passed along.
\<close>

subsection \<open>C++ types, exceptions, the world\<close>

text \<open>A C++ type is either \<open>void\<close> or a type named by a value of \<open>'t\<close>.\<close>

datatype 't cpp_type = Void | NonVoid 't

datatype exception =
    SignatureMismatch
  | DeserializationError
  | TestFailureException
  | OtherException string

text \<open>
  The world: the reading of the steady clock, and the argument tuples the tested function
  has been called with so far (oldest first).
\<close>

record 'v world =
  now :: int
  invoked :: "'v list list"

definition elapse :: "nat \<Rightarrow> 'v world \<Rightarrow> 'v world" where
  "elapse d w = w\<lparr>now := now w + int d\<rparr>"

text \<open>
  The result of running a piece of the harness in a world: it returns a value, or throws,
  each in a later world, or its behaviour is undefined.
\<close>

datatype ('a, 'v) outcome =
    Returns 'a "'v world"
  | Throws exception "'v world"
  | Undefined

subsection \<open>The collaborators the header includes\<close>

text \<open>
  \<open>SerializationTraits<T>\<close> (test_utils_serialization_traits.h) is not part of the
  sources at hand; the handler only uses its member type \<open>serialization_type\<close>, its name
  and its parser, which are taken as parameters. \<open>Parse\<close> yields \<open>None\<close> where the
  codec throws, and \<open>parse_cost\<close> is the time a call of the parser takes.
\<close>

record ('t, 'v) SerializationTraits =
  serialization_type :: "'t cpp_type \<Rightarrow> 't cpp_type"
  Name :: "'t cpp_type \<Rightarrow> string"
  Parse :: "'t cpp_type \<Rightarrow> string \<Rightarrow> 'v option"
  parse_cost :: "'t cpp_type \<Rightarrow> string \<Rightarrow> nat"

text \<open>
  The template argument \<open>Function\<close>: what \<open>FunctionalTraits<Function>\<close> says about it
  (\<open>return_t\<close>, \<open>arg_tuple_t\<close>), what a call does (it throws, \<open>Inl\<close>, or returns,
  \<open>Inr\<close>; for a function returning \<open>void\<close> the returned value stands for nothing and
  is dropped by the handler), and how long a call takes.
\<close>

record ('t, 'v) Function =
  return_t :: "'t cpp_type"
  arg_tuple_t :: "'t cpp_type list"
  body :: "'v list \<Rightarrow> exception + 'v"
  run_cost :: "'v list \<Rightarrow> nat"

text \<open>
  The template argument \<open>Comparator\<close>: whether it is the type \<open>DefaultComparator\<close>,
  the type \<open>BiPredicateTraits<Comparator>::arg1_t\<close> of its first parameter, its call
  operator on (expected, result), and how long a call takes.
\<close>

record ('t, 'v) Comparator =
  is_DefaultComparator :: bool
  arg1_t :: "'t cpp_type"
  call :: "'v \<Rightarrow> 'v \<Rightarrow> bool"
  comp_cost :: "'v \<Rightarrow> 'v \<Rightarrow> nat"

text \<open>
  Modelled from the spec: \<open>TestTimer\<close> (included through test_output.h) is missing from
  the sources. A timer is started and stopped against the steady clock and accumulates
  the time between the two.
\<close>

record TestTimer =
  start_m :: int
  duration_m :: int

definition TestTimer_new :: TestTimer where
  "TestTimer_new = \<lparr>start_m = 0, duration_m = 0\<rparr>"

definition Start :: "TestTimer \<Rightarrow> 'v world \<Rightarrow> TestTimer" where
  "Start tm w = tm\<lparr>start_m := now w\<rparr>"

definition Stop :: "TestTimer \<Rightarrow> 'v world \<Rightarrow> TestTimer" where
  "Stop tm w = tm\<lparr>duration_m := duration_m tm + (now w - start_m tm)\<rparr>"

text \<open>
  Modelled from the spec: \<open>TestOutput\<close> (test_output.h) is missing from the sources.
  It holds the verdict, the timer, and the optional expected and actual values; the
  handler builds it from four values, or from two when nothing is compared.
\<close>

record 'v TestOutput =
  passed :: bool
  timer :: TestTimer
  expected :: "'v option"
  actual :: "'v option"

definition elapsed :: "'v TestOutput \<Rightarrow> int" where
  "elapsed out = duration_m (timer out)"

text \<open>
  Modelled from the spec: \<open>MatchFunctionSignature\<close> (test_utils.h) is missing from the
  sources. It fails with a signature mismatch when the length of the header is not the
  number of parameters plus one for a non-void expected type, or when the tag at some
  position is not the name of the type at that position.
\<close>

definition MatchFunctionSignature ::
  "('t, 'v) SerializationTraits \<Rightarrow> 't cpp_type \<Rightarrow> 't cpp_type list \<Rightarrow> string list
    \<Rightarrow> exception + unit" where
  "MatchFunctionSignature T ret_ty arg_tys header =
     (if length header \<noteq> length arg_tys + (if ret_ty = Void then 0 else 1)
      then Inl SignatureMismatch
      else if list_ex (\<lambda>(tag, ty). tag \<noteq> Name T ty)
                (zip header (arg_tys @ (if ret_ty = Void then [] else [ret_ty])))
      then Inl SignatureMismatch
      else Inr ())"

text \<open>
  Modelled from the spec: \<open>ParseSerializedArgs\<close> (test_utils.h) is missing from the
  sources. It fails with a deserialization error when the number of fields is not the
  number of parameters, or when a field cannot be parsed as the type of its position;
  otherwise it returns the decoded arguments, in order.
\<close>

definition ParseSerializedArgs ::
  "('t, 'v) SerializationTraits \<Rightarrow> 't cpp_type list \<Rightarrow> string list \<Rightarrow> 'v world
    \<Rightarrow> ('v list, 'v) outcome" where
  "ParseSerializedArgs T arg_tys strs w =
     (if length strs \<noteq> length arg_tys then Throws DeserializationError w
      else
        let w' = elapse (sum_list (map2 (parse_cost T) arg_tys strs)) w in
        case those (map2 (Parse T) arg_tys strs) of
          None \<Rightarrow> Throws DeserializationError w'
        | Some vs \<Rightarrow> Returns vs w')"

text \<open>
  Modelled from the spec: \<open>FunctionalTraits<Function>::InvokeWithTimer\<close>
  (test_utils_meta.h) is missing from the sources. It starts the timer immediately before
  the call and stops it immediately after. The timer is a reference parameter, so the
  stopped timer is returned with the result; when the call throws, the exception leaves
  with the world the call has produced.
\<close>

definition InvokeWithTimer ::
  "('t, 'v) Function \<Rightarrow> TestTimer \<Rightarrow> 'v list \<Rightarrow> 'v world \<Rightarrow> ('v \<times> TestTimer, 'v) outcome" where
  "InvokeWithTimer f tm vs w =
     (let tm1 = Start tm w;
          w1 = elapse (run_cost f vs) (w\<lparr>invoked := invoked w @ [vs]\<rparr>)
      in case body f vs of
           Inl e \<Rightarrow> Throws e w1
         | Inr r \<Rightarrow> Returns (r, Stop tm1 w1) w1)"

subsection \<open>The class\<close>

text \<open>
  The data members \<open>func_\<close> and \<open>comp_\<close> are written \<open>func_m\<close> and \<open>comp_m\<close>,
  since a name cannot end in an underscore here.
\<close>

record ('t, 'v) GenericTestHandler =
  func_m :: "('t, 'v) Function"
  comp_m :: "('t, 'v) Comparator"

definition has_default_comparator :: "('t, 'v) Comparator \<Rightarrow> bool" where
  "has_default_comparator c = is_DefaultComparator c"

definition expected_value_t ::
  "('t, 'v) SerializationTraits \<Rightarrow> ('t, 'v) Function \<Rightarrow> ('t, 'v) Comparator \<Rightarrow> 't cpp_type" where
  "expected_value_t T f c =
     serialization_type T (if has_default_comparator c then return_t f else arg1_t c)"

datatype expected_tag_t = ExpectedIsVoidTag | ExpectedIsValueTag

definition expected_tag ::
  "('t, 'v) SerializationTraits \<Rightarrow> ('t, 'v) Function \<Rightarrow> ('t, 'v) Comparator \<Rightarrow> expected_tag_t" where
  "expected_tag T f c =
     (if expected_value_t T f c = Void then ExpectedIsVoidTag else ExpectedIsValueTag)"

text \<open>
  Instantiating the class evaluates its \<open>static_assert\<close>; where the assertion fails the
  program does not compile and there is no handler (\<open>None\<close>). The constructor itself
  only stores the function and the comparator.
\<close>

definition GenericTestHandler_new ::
  "('t, 'v) SerializationTraits \<Rightarrow> ('t, 'v) Function \<Rightarrow> ('t, 'v) Comparator
    \<Rightarrow> ('t, 'v) GenericTestHandler option" where
  "GenericTestHandler_new T f c =
     (if (expected_value_t T f c = Void) = (return_t f = Void)
      then Some \<lparr>func_m = f, comp_m = c\<rparr>
      else None)"

definition ExpectedIsVoid ::
  "('t, 'v) SerializationTraits \<Rightarrow> ('t, 'v) GenericTestHandler \<Rightarrow> bool" where
  "ExpectedIsVoid T h = (expected_tag T (func_m h) (comp_m h) = ExpectedIsVoidTag)"

definition ArgumentCount :: "('t, 'v) GenericTestHandler \<Rightarrow> nat" where
  "ArgumentCount h = length (arg_tuple_t (func_m h))"

definition ParseSignature ::
  "('t, 'v) SerializationTraits \<Rightarrow> ('t, 'v) GenericTestHandler \<Rightarrow> string list
    \<Rightarrow> exception + unit" where
  "ParseSignature T h arg_types =
     MatchFunctionSignature T (expected_value_t T (func_m h) (comp_m h))
       (arg_tuple_t (func_m h)) arg_types"

definition Invoke ::
  "('t, 'v) GenericTestHandler \<Rightarrow> TestTimer \<Rightarrow> 'v list \<Rightarrow> 'v world
    \<Rightarrow> ('v \<times> TestTimer, 'v) outcome" where
  "Invoke h tm vs w = InvokeWithTimer (func_m h) tm vs w"

text \<open>The overload for a non-void expected type (\<open>ExpectedIsValueTag\<close>).\<close>

definition ParseExpectedAndInvokeImpl_Value ::
  "('t, 'v) SerializationTraits \<Rightarrow> ('t, 'v) GenericTestHandler \<Rightarrow> string \<Rightarrow> 'v list
    \<Rightarrow> 'v world \<Rightarrow> ('v TestOutput, 'v) outcome" where
  "ParseExpectedAndInvokeImpl_Value T h serialized_expected vs w =
     (let ty = expected_value_t T (func_m h) (comp_m h);
          w1 = elapse (parse_cost T ty serialized_expected) w
      in case Parse T ty serialized_expected of
           None \<Rightarrow> Throws DeserializationError w1
         | Some ex \<Rightarrow>
             (case Invoke h TestTimer_new vs w1 of
                Throws x w2 \<Rightarrow> Throws x w2
              | Undefined \<Rightarrow> Undefined
              | Returns (res, tm) w2 \<Rightarrow>
                  Returns \<lparr>passed = call (comp_m h) ex res, timer = tm,
                           expected = Some ex, actual = Some res\<rparr>
                    (elapse (comp_cost (comp_m h) ex res) w2)))"

text \<open>The overload for the expected type \<open>void\<close> (\<open>ExpectedIsVoidTag\<close>).\<close>

definition ParseExpectedAndInvokeImpl_Void ::
  "('t, 'v) SerializationTraits \<Rightarrow> ('t, 'v) GenericTestHandler \<Rightarrow> string \<Rightarrow> 'v list
    \<Rightarrow> 'v world \<Rightarrow> ('v TestOutput, 'v) outcome" where
  "ParseExpectedAndInvokeImpl_Void T h serialized_expected vs w =
     (case Invoke h TestTimer_new vs w of
        Throws x w1 \<Rightarrow> Throws x w1
      | Undefined \<Rightarrow> Undefined
      | Returns (res, tm) w1 \<Rightarrow>
          Returns \<lparr>passed = True, timer = tm, expected = None, actual = None\<rparr> w1)"

definition ParseExpectedAndInvoke ::
  "('t, 'v) SerializationTraits \<Rightarrow> ('t, 'v) GenericTestHandler \<Rightarrow> string \<Rightarrow> 'v list
    \<Rightarrow> 'v world \<Rightarrow> ('v TestOutput, 'v) outcome" where
  "ParseExpectedAndInvoke T h serialized_expected vs w =
     (case expected_tag T (func_m h) (comp_m h) of
        ExpectedIsValueTag \<Rightarrow> ParseExpectedAndInvokeImpl_Value T h serialized_expected vs w
      | ExpectedIsVoidTag \<Rightarrow> ParseExpectedAndInvokeImpl_Void T h serialized_expected vs w)"

text \<open>
  \<open>RunTest\<close>. The end of the argument range is \<open>cend(test_args) - 1\<close> for a non-void
  expected type, which lies before the beginning of an empty vector: undefined. After
  the arguments are parsed, \<open>test_args.back()\<close> is evaluated in both cases, which is
  undefined on an empty vector.
\<close>

definition RunTest ::
  "('t, 'v) SerializationTraits \<Rightarrow> ('t, 'v) GenericTestHandler \<Rightarrow> string list
    \<Rightarrow> 'v world \<Rightarrow> ('v TestOutput, 'v) outcome" where
  "RunTest T h test_args w =
     (if \<not> ExpectedIsVoid T h \<and> test_args = [] then Undefined
      else
        case ParseSerializedArgs T (arg_tuple_t (func_m h))
               (take (length test_args - (if ExpectedIsVoid T h then 0 else 1)) test_args) w of
          Throws x w1 \<Rightarrow> Throws x w1
        | Undefined \<Rightarrow> Undefined
        | Returns vs w1 \<Rightarrow>
            (if test_args = [] then Undefined
             else ParseExpectedAndInvoke T h (last test_args) vs w1))"

subsection \<open>The caller's loop over the rows\<close>

text \<open>
  Modelled from the spec: the loop that calls \<open>RunTest\<close> on each row (generic_test.h) is
  missing from the sources. A row whose run returns is passed or failed by its output; a
  row on which the tested function throws \<open>TestFailureException\<close> is failed and the
  loop goes on; any other exception aborts the suite, and no further row is processed.
  The result is the verdicts of the judged rows and the abort signal, if any.
\<close>

datatype verdict = Passed | Failed

fun judged ::
  "verdict \<Rightarrow> (verdict list \<times> exception option, 'v) outcome
    \<Rightarrow> (verdict list \<times> exception option, 'v) outcome" where
  "judged v (Returns (vs, ab) w) = Returns (v # vs, ab) w"
| "judged v (Throws x w) = Throws x w"
| "judged v Undefined = Undefined"

fun RunTests ::
  "('t, 'v) SerializationTraits \<Rightarrow> ('t, 'v) GenericTestHandler \<Rightarrow> string list list
    \<Rightarrow> 'v world \<Rightarrow> (verdict list \<times> exception option, 'v) outcome" where
  "RunTests T h [] w = Returns ([], None) w"
| "RunTests T h (row # rows) w =
     (case RunTest T h row w of
        Undefined \<Rightarrow> Undefined
      | Returns out w1 \<Rightarrow>
          judged (if passed out then Passed else Failed) (RunTests T h rows w1)
      | Throws x w1 \<Rightarrow>
          (if x = TestFailureException then judged Failed (RunTests T h rows w1)
           else Returns ([], Some x) w1))"

subsection \<open>A small instance: integers in decimal\<close>

text \<open>
  Types are named by strings and values are integers; the only codec reads a non-empty
  string of decimal digits, and parsing a field costs one tick per character.
\<close>

fun parse_digits :: "nat \<Rightarrow> string \<Rightarrow> nat option" where
  "parse_digits acc [] = Some acc"
| "parse_digits acc (c # cs) =
     (if 48 \<le> (of_char c :: nat) \<and> (of_char c :: nat) \<le> 57
      then parse_digits (10 * acc + (of_char c - 48)) cs
      else None)"

definition parse_int :: "string \<Rightarrow> int option" where
  "parse_int s = (if s = [] then None else map_option int (parse_digits 0 s))"

definition int_traits :: "(string, int) SerializationTraits" where
  "int_traits =
     \<lparr>serialization_type = (\<lambda>ty. ty),
      Name = (\<lambda>ty. case ty of Void \<Rightarrow> ''void'' | NonVoid n \<Rightarrow> n),
      Parse = (\<lambda>ty s. if ty = NonVoid ''int'' then parse_int s else None),
      parse_cost = (\<lambda>ty s. length s)\<rparr>"

text \<open>\<open>int add(int, int)\<close>, taking seven ticks.\<close>

definition add_fn :: "(string, int) Function" where
  "add_fn =
     \<lparr>return_t = NonVoid ''int'',
      arg_tuple_t = [NonVoid ''int'', NonVoid ''int''],
      body = (\<lambda>vs. Inr (sum_list vs)),
      run_cost = (\<lambda>vs. 7)\<rparr>"

text \<open>
  \<open>void check(int)\<close>: it throws \<open>TestFailureException\<close> on 0 and something else on
  1, and returns otherwise; \<open>void tick()\<close> takes no argument.
\<close>

definition check_fn :: "(string, int) Function" where
  "check_fn =
     \<lparr>return_t = Void,
      arg_tuple_t = [NonVoid ''int''],
      body = (\<lambda>vs. if vs = [0] then Inl TestFailureException
                   else if vs = [1] then Inl (OtherException ''bad_alloc'')
                   else Inr 0),
      run_cost = (\<lambda>vs. 3)\<rparr>"

definition tick_fn :: "(string, int) Function" where
  "tick_fn =
     \<lparr>return_t = Void, arg_tuple_t = [], body = (\<lambda>vs. Inr 0), run_cost = (\<lambda>vs. 1)\<rparr>"

text \<open>\<open>double half(int)\<close>, used with a comparator whose first parameter is an \<open>int\<close>.\<close>

definition half_fn :: "(string, int) Function" where
  "half_fn =
     \<lparr>return_t = NonVoid ''float'',
      arg_tuple_t = [NonVoid ''int''],
      body = (\<lambda>vs. Inr (sum_list vs div 2)),
      run_cost = (\<lambda>vs. 2)\<rparr>"

definition default_comp :: "(string, int) Comparator" where
  "default_comp =
     \<lparr>is_DefaultComparator = True, arg1_t = Void,
      call = (\<lambda>e r. e = r), comp_cost = (\<lambda>e r. 2)\<rparr>"

text \<open>A user comparator that is not symmetric: expected < result.\<close>

definition less_comp :: "(string, int) Comparator" where
  "less_comp =
     \<lparr>is_DefaultComparator = False, arg1_t = NonVoid ''int'',
      call = (\<lambda>e r. e < r), comp_cost = (\<lambda>e r. 5)\<rparr>"

definition w0 :: "int world" where
  "w0 = \<lparr>now = 100, invoked = []\<rparr>"

text \<open>The handlers of the instance, as the constructor stores them.\<close>

definition add_h :: "(string, int) GenericTestHandler" where
  "add_h = \<lparr>func_m = add_fn, comp_m = default_comp\<rparr>"

definition check_h :: "(string, int) GenericTestHandler" where
  "check_h = \<lparr>func_m = check_fn, comp_m = default_comp\<rparr>"

definition tick_h :: "(string, int) GenericTestHandler" where
  "tick_h = \<lparr>func_m = tick_fn, comp_m = default_comp\<rparr>"

definition half_h :: "(string, int) GenericTestHandler" where
  "half_h = \<lparr>func_m = half_fn, comp_m = less_comp\<rparr>"

subsection \<open>What a header is matched against\<close>

text \<open>
  The tags \<open>ParseSignature\<close> hands to the matcher: the names of the parameter types,
  then the name of \<open>expected_value_t\<close> unless that is \<open>void\<close>.
\<close>

definition signature_tags ::
  "('t, 'v) SerializationTraits \<Rightarrow> ('t, 'v) GenericTestHandler \<Rightarrow> string list" where
  "signature_tags T h =
     map (Name T) (arg_tuple_t (func_m h)) @
       (if expected_value_t T (func_m h) (comp_m h) = Void then []
        else [Name T (expected_value_t T (func_m h) (comp_m h))])"

text \<open>
  The tags of the declared signature of the tested function, in the words of the
  specification: the names of its parameter types, then the name of its return type
  unless that is \<open>void\<close>.
\<close>

definition declared_signature ::
  "('t, 'v) SerializationTraits \<Rightarrow> ('t, 'v) Function \<Rightarrow> string list" where
  "declared_signature T f =
     map (Name T) (arg_tuple_t f) @ (if return_t f = Void then [] else [Name T (return_t f)])"

section \<open>Properties\<close>

subsection \<open>Constructed handlers\<close>

lemma constructed_fields:
  "GenericTestHandler_new T f c = Some h \<Longrightarrow> func_m h = f \<and> comp_m h = c"
  by (auto simp: GenericTestHandler_new_def split: if_splits)

lemma constructed_void_iff:
  "GenericTestHandler_new T f c = Some h \<Longrightarrow>
     (expected_value_t T f c = Void) = (return_t f = Void)"
  by (auto simp: GenericTestHandler_new_def split: if_splits)

lemma constructed_ExpectedIsVoid:
  "GenericTestHandler_new T f c = Some h \<Longrightarrow> ExpectedIsVoid T h = (return_t f = Void)"
  using constructed_fields [of T f c h] constructed_void_iff [of T f c h]
  by (simp add: ExpectedIsVoid_def expected_tag_def)

lemma RunTest_value:
  assumes "GenericTestHandler_new T f c = Some h" and "return_t f \<noteq> Void" and "row \<noteq> []"
  shows "RunTest T h row w =
     (case ParseSerializedArgs T (arg_tuple_t f) (take (length row - 1) row) w of
        Returns vs w1 \<Rightarrow> ParseExpectedAndInvokeImpl_Value T h (row ! (length row - 1)) vs w1
      | Throws x w1 \<Rightarrow> Throws x w1
      | Undefined \<Rightarrow> Undefined)"
proof -
  have v: "\<not> ExpectedIsVoid T h"
    using assms constructed_ExpectedIsVoid [of T f c h] by simp
  then have tg: "expected_tag T (func_m h) (comp_m h) = ExpectedIsValueTag"
    by (cases "expected_tag T (func_m h) (comp_m h)") (simp_all add: ExpectedIsVoid_def)
  have f: "func_m h = f" using assms constructed_fields by blast
  show ?thesis
    using v tg f assms(3)
    by (simp add: RunTest_def ParseExpectedAndInvoke_def last_conv_nth split: outcome.splits)
qed

lemma RunTest_void:
  assumes "GenericTestHandler_new T f c = Some h" and "return_t f = Void"
  shows "RunTest T h row w =
     (case ParseSerializedArgs T (arg_tuple_t f) row w of
        Returns vs w1 \<Rightarrow>
          (if row = [] then Undefined
           else ParseExpectedAndInvokeImpl_Void T h (row ! (length row - 1)) vs w1)
      | Throws x w1 \<Rightarrow> Throws x w1
      | Undefined \<Rightarrow> Undefined)"
proof -
  have v: "ExpectedIsVoid T h"
    using assms constructed_ExpectedIsVoid [of T f c h] by simp
  then have tg: "expected_tag T (func_m h) (comp_m h) = ExpectedIsVoidTag"
    by (simp add: ExpectedIsVoid_def)
  have f: "func_m h = f" using assms constructed_fields by blast
  show ?thesis
    using v tg f
    by (simp add: RunTest_def ParseExpectedAndInvoke_def last_conv_nth split: outcome.splits)
qed

lemma Invoke_ignores_return_t:
  "Invoke (h\<lparr>func_m := (func_m h)\<lparr>return_t := r\<rparr>\<rparr>) tm vs w = Invoke h tm vs w"
  by (simp add: Invoke_def InvokeWithTimer_def)

lemma ParseExpectedAndInvoke_ignores_return_t:
  assumes "\<not> is_DefaultComparator (comp_m h)"
  shows "ParseExpectedAndInvoke T (h\<lparr>func_m := (func_m h)\<lparr>return_t := r\<rparr>\<rparr>) s vs w =
         ParseExpectedAndInvoke T h s vs w"
proof -
  have "expected_value_t T (func_m (h\<lparr>func_m := (func_m h)\<lparr>return_t := r\<rparr>\<rparr>)) (comp_m h)
        = expected_value_t T (func_m h) (comp_m h)"
    using assms by (simp add: expected_value_t_def has_default_comparator_def)
  then show ?thesis
    by (simp add: expected_tag_def ParseExpectedAndInvoke_def
      ParseExpectedAndInvokeImpl_Value_def ParseExpectedAndInvokeImpl_Void_def
      Invoke_ignores_return_t Let_def split: option.splits outcome.splits)
qed

lemma RunTest_ignores_return_t:
  assumes "\<not> is_DefaultComparator (comp_m h)"
  shows "RunTest T (h\<lparr>func_m := (func_m h)\<lparr>return_t := r\<rparr>\<rparr>) row w = RunTest T h row w"
proof -
  have "ExpectedIsVoid T (h\<lparr>func_m := (func_m h)\<lparr>return_t := r\<rparr>\<rparr>) = ExpectedIsVoid T h"
    using assms
    by (simp add: ExpectedIsVoid_def expected_tag_def expected_value_t_def
        has_default_comparator_def)
  then show ?thesis
    using ParseExpectedAndInvoke_ignores_return_t [OF assms, of T r]
    by (simp add: RunTest_def split: outcome.splits)
qed

lemmas handler_defs =
  GenericTestHandler_new_def expected_value_t_def has_default_comparator_def
  expected_tag_def ExpectedIsVoid_def ArgumentCount_def ParseSignature_def
  MatchFunctionSignature_def

lemmas run_defs =
  RunTest_def ParseSerializedArgs_def ParseExpectedAndInvoke_def
  ParseExpectedAndInvokeImpl_Value_def ParseExpectedAndInvokeImpl_Void_def
  Invoke_def InvokeWithTimer_def TestTimer_new_def Start_def Stop_def elapse_def
  elapsed_def

lemmas instance_defs =
  int_traits_def parse_int_def add_fn_def check_fn_def tick_fn_def half_fn_def
  default_comp_def less_comp_def w0_def add_h_def check_h_def tick_h_def half_h_def

subsection \<open>The static assertion\<close>

text \<open>
  Claim C3. A handler exists exactly when the expected-value type and the return type of
  the tested function are both \<open>void\<close> or both not; so for every handler that is
  built, \<open>expected_value_t\<close> is \<open>void\<close> if and only if the return type is, and the
  dispatch of \<open>RunTest\<close> on \<open>ExpectedIsVoid\<close> is a dispatch on the return type.
  \<open>RunTest\<close> itself does not look at the return type again: with a user comparator its
  result is the same whatever the return type is.
\<close>

theorem expected_void_iff_return_void:
  "((GenericTestHandler_new T f c = None) =
      ((expected_value_t T f c = Void) \<noteq> (return_t f = Void))) \<and>
   (GenericTestHandler_new T f c = Some h \<longrightarrow>
      h = \<lparr>func_m = f, comp_m = c\<rparr> \<and>
      (expected_value_t T (func_m h) (comp_m h) = Void) = (return_t (func_m h) = Void) \<and>
      ExpectedIsVoid T h = (return_t (func_m h) = Void)) \<and>
   (\<not> is_DefaultComparator c \<longrightarrow>
      RunTest T \<lparr>func_m = f\<lparr>return_t := r\<rparr>, comp_m = c\<rparr> row w =
      RunTest T \<lparr>func_m = f, comp_m = c\<rparr> row w)"
proof (intro conjI impI)
  show "(GenericTestHandler_new T f c = None) =
     ((expected_value_t T f c = Void) \<noteq> (return_t f = Void))"
    by (simp add: GenericTestHandler_new_def)
next
  assume a: "GenericTestHandler_new T f c = Some h"
  then show "h = \<lparr>func_m = f, comp_m = c\<rparr>"
    by (auto simp: GenericTestHandler_new_def split: if_splits)
  show "(expected_value_t T (func_m h) (comp_m h) = Void) = (return_t (func_m h) = Void)"
    using constructed_fields [OF a] constructed_void_iff [OF a] by simp
  show "ExpectedIsVoid T h = (return_t (func_m h) = Void)"
    using constructed_fields [OF a] constructed_ExpectedIsVoid [OF a] by simp
next
  assume "\<not> is_DefaultComparator c"
  then show "RunTest T \<lparr>func_m = f\<lparr>return_t := r\<rparr>, comp_m = c\<rparr> row w =
      RunTest T \<lparr>func_m = f, comp_m = c\<rparr> row w"
    using RunTest_ignores_return_t [of "\<lparr>func_m = f, comp_m = c\<rparr>" T r row w] by simp
qed

theorem expected_void_iff_return_void_witness:
  "GenericTestHandler_new int_traits check_fn less_comp = None \<and>
   (expected_value_t int_traits check_fn less_comp = Void) \<noteq> (return_t check_fn = Void) \<and>
   GenericTestHandler_new int_traits half_fn less_comp = Some half_h \<and>
   \<not> ExpectedIsVoid int_traits half_h \<and> return_t (func_m half_h) \<noteq> Void \<and>
   \<not> is_DefaultComparator less_comp \<and>
   RunTest int_traits \<lparr>func_m = half_fn\<lparr>return_t := Void\<rparr>, comp_m = less_comp\<rparr> [''9'', ''3''] w0 =
   RunTest int_traits \<lparr>func_m = half_fn, comp_m = less_comp\<rparr> [''9'', ''3''] w0"
  using expected_void_iff_return_void [of int_traits check_fn less_comp half_h Void "[''9'', ''3'']" w0]
    expected_void_iff_return_void [of int_traits half_fn less_comp half_h Void "[''9'', ''3'']" w0]
  by (simp add: handler_defs instance_defs)

subsection \<open>The empty row\<close>

lemma RunTest_empty_row:
  "RunTest T h [] w = Undefined \<or> (\<exists>w'. RunTest T h [] w = Throws DeserializationError w')"
  by (simp add: RunTest_def ParseSerializedArgs_def Let_def split: option.splits)

text \<open>
  Claim C10. \<open>RunTest\<close> never returns an output on the empty row. For a function
  returning \<open>void\<close> that takes no parameter, the empty header passes
  \<open>ParseSignature\<close> and the empty row decodes to the empty argument tuple, yet
  \<open>RunTest\<close> on it is undefined: \<open>test_args.back()\<close> is evaluated before the
  dispatch on the expected type.
\<close>

theorem RunTest_empty_row_undefined:
  "(\<forall>out w'. RunTest T h [] w \<noteq> Returns out w') \<and>
   (GenericTestHandler_new T f c = Some h \<and> return_t f = Void \<and> arg_tuple_t f = [] \<longrightarrow>
      ParseSignature T h [] = Inr () \<and>
      ParseSerializedArgs T (arg_tuple_t (func_m h)) [] w = Returns [] w \<and>
      RunTest T h [] w = Undefined)"
proof (intro conjI impI allI)
  fix out w'
  show "RunTest T h [] w \<noteq> Returns out w'"
    using RunTest_empty_row [of T h w] by auto
next
  assume a: "GenericTestHandler_new T f c = Some h \<and> return_t f = Void \<and> arg_tuple_t f = []"
  then have c: "GenericTestHandler_new T f c = Some h" by simp
  have f: "func_m h = f" "comp_m h = c" using constructed_fields [OF c] by simp_all
  have v: "expected_value_t T f c = Void" using constructed_void_iff [OF c] a by simp
  show "ParseSignature T h [] = Inr ()"
    using a f v by (simp add: ParseSignature_def MatchFunctionSignature_def)
  show psa: "ParseSerializedArgs T (arg_tuple_t (func_m h)) [] w = Returns [] w"
    using a f by (simp add: ParseSerializedArgs_def elapse_def)
  show "RunTest T h [] w = Undefined"
    using RunTest_void [OF c, of "[]" w] a psa f by simp
qed

theorem RunTest_empty_row_undefined_witness:
  "GenericTestHandler_new int_traits tick_fn default_comp = Some tick_h \<and>
   return_t tick_fn = Void \<and> arg_tuple_t tick_fn = [] \<and>
   ParseSignature int_traits tick_h [] = Inr () \<and>
   RunTest int_traits tick_h [] w0 = Undefined"
  using RunTest_empty_row_undefined [of int_traits tick_h w0 tick_fn default_comp]
  by (simp add: handler_defs instance_defs)

subsection \<open>Matching a header\<close>

lemma zip_mismatch_iff:
  "length xs = length ys \<Longrightarrow>
     (\<not> list_ex (\<lambda>(x, y). x \<noteq> g y) (zip xs ys)) = (xs = map g ys)"
  by (induction xs ys rule: list_induct2) auto

lemma MatchFunctionSignature_iff:
  "(MatchFunctionSignature T r tys header = Inr ()) =
     (header = map (Name T) tys @ (if r = Void then [] else [Name T r]))"
proof (cases "length header = length tys + (if r = Void then 0 else 1)")
  case True
  then have "length header = length (tys @ (if r = Void then [] else [r]))" by simp
  from zip_mismatch_iff [OF this, of "Name T"] True show ?thesis
    by (auto simp: MatchFunctionSignature_def)
next
  case False
  then show ?thesis by (auto simp: MatchFunctionSignature_def)
qed

lemma MatchFunctionSignature_cases:
  "MatchFunctionSignature T r tys header = Inr () \<or>
   MatchFunctionSignature T r tys header = Inl SignatureMismatch"
  by (simp add: MatchFunctionSignature_def)

lemma ParseSignature_iff: "(ParseSignature T h header = Inr ()) = (header = signature_tags T h)"
  by (simp add: ParseSignature_def signature_tags_def MatchFunctionSignature_iff)

lemma ParseSignature_fails:
  "header \<noteq> signature_tags T h \<Longrightarrow> ParseSignature T h header = Inl SignatureMismatch"
  using ParseSignature_iff [of T h header]
    MatchFunctionSignature_cases [of T "expected_value_t T (func_m h) (comp_m h)"
      "arg_tuple_t (func_m h)" header]
  by (auto simp: ParseSignature_def)

text \<open>
  Claim C1, as amended. \<open>ParseSignature\<close> succeeds if and only if the header is, in
  length and at every position, the names of the parameter types of the tested function
  followed by the name of the expected-value type when that is not \<open>void\<close>. Any other
  header is a signature mismatch; in particular a header of another length, and a
  matching header with one tag changed. Under the default comparator, when the return
  type is its own serialization type, these are the tags of the declared signature.
\<close>

theorem ParseSignature_matches_expected_signature:
  "((ParseSignature T h header = Inr ()) = (header = signature_tags T h)) \<and>
   (header \<noteq> signature_tags T h \<longrightarrow> ParseSignature T h header = Inl SignatureMismatch) \<and>
   (ParseSignature T h header = Inr () \<longrightarrow> length header' \<noteq> length header \<longrightarrow>
      ParseSignature T h header' = Inl SignatureMismatch) \<and>
   (ParseSignature T h header = Inr () \<longrightarrow> i < length header \<longrightarrow> tag \<noteq> header ! i \<longrightarrow>
      ParseSignature T h (header[i := tag]) = Inl SignatureMismatch) \<and>
   (is_DefaultComparator (comp_m h) \<longrightarrow>
      serialization_type T (return_t (func_m h)) = return_t (func_m h) \<longrightarrow>
      signature_tags T h = declared_signature T (func_m h))"
proof (intro conjI impI)
  show "(ParseSignature T h header = Inr ()) = (header = signature_tags T h)"
    by (rule ParseSignature_iff)
next
  assume "header \<noteq> signature_tags T h"
  then show "ParseSignature T h header = Inl SignatureMismatch"
    by (rule ParseSignature_fails)
next
  assume ok: "ParseSignature T h header = Inr ()" and len: "length header' \<noteq> length header"
  from ok have "header = signature_tags T h" by (simp add: ParseSignature_iff)
  with len have "header' \<noteq> signature_tags T h" by auto
  then show "ParseSignature T h header' = Inl SignatureMismatch"
    by (rule ParseSignature_fails)
next
  assume ok: "ParseSignature T h header = Inr ()" and i: "i < length header"
    and tag: "tag \<noteq> header ! i"
  from ok have eq: "header = signature_tags T h" by (simp add: ParseSignature_iff)
  have "header[i := tag] ! i = tag" using i by simp
  with tag have "header[i := tag] \<noteq> header" by metis
  with eq have "header[i := tag] \<noteq> signature_tags T h" by simp
  then show "ParseSignature T h (header[i := tag]) = Inl SignatureMismatch"
    by (rule ParseSignature_fails)
next
  assume "is_DefaultComparator (comp_m h)"
    and "serialization_type T (return_t (func_m h)) = return_t (func_m h)"
  then show "signature_tags T h = declared_signature T (func_m h)"
    by (simp add: signature_tags_def declared_signature_def expected_value_t_def
        has_default_comparator_def)
qed

theorem ParseSignature_matches_expected_signature_witness:
  "ParseSignature int_traits add_h [''int'', ''int'', ''int''] = Inr () \<and>
   [''int'', ''int'', ''int''] = signature_tags int_traits add_h \<and>
   length [''int'', ''int''] \<noteq> length [''int'', ''int'', ''int''] \<and>
   ParseSignature int_traits add_h [''int'', ''int''] = Inl SignatureMismatch \<and>
   (1::nat) < length [''int'', ''int'', ''int''] \<and> ''string'' \<noteq> [''int'', ''int'', ''int''] ! 1 \<and>
   ParseSignature int_traits add_h [''int'', ''string'', ''int''] = Inl SignatureMismatch \<and>
   is_DefaultComparator (comp_m add_h) \<and>
   serialization_type int_traits (return_t (func_m add_h)) = return_t (func_m add_h) \<and>
   signature_tags int_traits add_h = declared_signature int_traits (func_m add_h)"
  using ParseSignature_matches_expected_signature
    [of int_traits add_h "[''int'', ''int'', ''int'']" "[''int'', ''int'']" 1 "''string''"]
  by (simp add: handler_defs signature_tags_def declared_signature_def instance_defs)

text \<open>
  Claim C1, as stated, fails for \<open>double half(int)\<close> with a comparator whose first
  parameter is an \<open>int\<close>: the header of the declared signature is rejected, and the
  header that is accepted names \<open>int\<close> where the function returns \<open>float\<close>.
\<close>

theorem ParseSignature_declared_signature_counterexample:
  "GenericTestHandler_new int_traits half_fn less_comp = Some half_h \<and>
   declared_signature int_traits (func_m half_h) = [''int'', ''float''] \<and>
   ParseSignature int_traits half_h [''int'', ''float''] = Inl SignatureMismatch \<and>
   ParseSignature int_traits half_h [''int'', ''int''] = Inr () \<and>
   \<not> ((ParseSignature int_traits half_h [''int'', ''float''] = Inr ()) =
        ([''int'', ''float''] = declared_signature int_traits (func_m half_h)))"
  by (simp add: handler_defs signature_tags_def declared_signature_def instance_defs)

subsection \<open>Decoding the arguments\<close>

lemma ParseSerializedArgs_Returns:
  "(ParseSerializedArgs T tys strs w = Returns vs w1) =
     (length strs = length tys \<and> those (map2 (Parse T) tys strs) = Some vs \<and>
      w1 = w\<lparr>now := now w + int (sum_list (map2 (parse_cost T) tys strs))\<rparr>)"
  by (auto simp: ParseSerializedArgs_def Let_def elapse_def split: option.splits)

lemma ParseSerializedArgs_Throws:
  "ParseSerializedArgs T tys strs w = Throws x w1 \<Longrightarrow>
     x = DeserializationError \<and> invoked w1 = invoked w"
  by (auto simp: ParseSerializedArgs_def Let_def elapse_def split: option.splits if_splits)

lemma ParseSerializedArgs_defined: "ParseSerializedArgs T tys strs w \<noteq> Undefined"
  by (simp add: ParseSerializedArgs_def Let_def split: option.splits)

lemma those_None: "i < length xs \<Longrightarrow> xs ! i = None \<Longrightarrow> those xs = None"
proof (induction xs arbitrary: i)
  case Nil
  then show ?case by simp
next
  case (Cons x xs)
  show ?case
  proof (cases i)
    case 0
    with Cons.prems show ?thesis by simp
  next
    case (Suc j)
    with Cons.prems have "those xs = None" using Cons.IH [of j] by simp
    then show ?thesis by (simp split: option.splits)
  qed
qed

lemma ParseSerializedArgs_unparsable:
  assumes "i < length strs" and "i < length tys" and "Parse T (tys ! i) (strs ! i) = None"
  shows "\<exists>w1. ParseSerializedArgs T tys strs w = Throws DeserializationError w1 \<and>
              invoked w1 = invoked w"
proof (cases "length strs = length tys")
  case False
  then show ?thesis by (simp add: ParseSerializedArgs_def)
next
  case True
  have "those (map2 (Parse T) tys strs) = None"
    using assms by (intro those_None [of i]) simp_all
  with True show ?thesis
    by (simp add: ParseSerializedArgs_def Let_def elapse_def)
qed

subsection \<open>Invoking and evaluating\<close>

lemma Invoke_new_timer:
  "Invoke h TestTimer_new vs w =
     (case body (func_m h) vs of
        Inl e \<Rightarrow> Throws e \<lparr>now = now w + int (run_cost (func_m h) vs), invoked = invoked w @ [vs]\<rparr>
      | Inr r \<Rightarrow>
          Returns (r, \<lparr>start_m = now w, duration_m = int (run_cost (func_m h) vs)\<rparr>)
            \<lparr>now = now w + int (run_cost (func_m h) vs), invoked = invoked w @ [vs]\<rparr>)"
  by (simp add: Invoke_def InvokeWithTimer_def TestTimer_new_def Start_def Stop_def elapse_def
      Let_def split: sum.splits)

lemma Value_Returns:
  "(ParseExpectedAndInvokeImpl_Value T h s vs w = Returns out w') =
     (\<exists>ex r. Parse T (expected_value_t T (func_m h) (comp_m h)) s = Some ex \<and>
        body (func_m h) vs = Inr r \<and>
        out = \<lparr>passed = call (comp_m h) ex r,
               timer = \<lparr>start_m = now w + int (parse_cost T (expected_value_t T (func_m h) (comp_m h)) s),
                        duration_m = int (run_cost (func_m h) vs)\<rparr>,
               expected = Some ex, actual = Some r\<rparr> \<and>
        w' = \<lparr>now = now w + int (parse_cost T (expected_value_t T (func_m h) (comp_m h)) s)
                   + int (run_cost (func_m h) vs) + int (comp_cost (comp_m h) ex r),
              invoked = invoked w @ [vs]\<rparr>)"
  by (auto simp: ParseExpectedAndInvokeImpl_Value_def Invoke_new_timer Let_def elapse_def
      split: option.splits sum.splits)

lemma Value_Throws:
  "(ParseExpectedAndInvokeImpl_Value T h s vs w = Throws x w') =
     (case Parse T (expected_value_t T (func_m h) (comp_m h)) s of
        None \<Rightarrow> x = DeserializationError \<and>
          w' = w\<lparr>now := now w + int (parse_cost T (expected_value_t T (func_m h) (comp_m h)) s)\<rparr>
      | Some ex \<Rightarrow> body (func_m h) vs = Inl x \<and>
          w' = \<lparr>now = now w + int (parse_cost T (expected_value_t T (func_m h) (comp_m h)) s)
                   + int (run_cost (func_m h) vs),
                invoked = invoked w @ [vs]\<rparr>)"
  by (auto simp: ParseExpectedAndInvokeImpl_Value_def Invoke_new_timer Let_def elapse_def
      split: option.splits sum.splits)

lemma Void_Returns:
  "(ParseExpectedAndInvokeImpl_Void T h s vs w = Returns out w') =
     (\<exists>r. body (func_m h) vs = Inr r \<and>
        out = \<lparr>passed = True,
               timer = \<lparr>start_m = now w, duration_m = int (run_cost (func_m h) vs)\<rparr>,
               expected = None, actual = None\<rparr> \<and>
        w' = \<lparr>now = now w + int (run_cost (func_m h) vs), invoked = invoked w @ [vs]\<rparr>)"
  by (auto simp: ParseExpectedAndInvokeImpl_Void_def Invoke_new_timer split: sum.splits)

lemma Void_Throws:
  "(ParseExpectedAndInvokeImpl_Void T h s vs w = Throws x w') =
     (body (func_m h) vs = Inl x \<and>
      w' = \<lparr>now = now w + int (run_cost (func_m h) vs), invoked = invoked w @ [vs]\<rparr>)"
  by (auto simp: ParseExpectedAndInvokeImpl_Void_def Invoke_new_timer split: sum.splits)

subsection \<open>Runs that return\<close>

lemma RunTest_value_Returns:
  assumes "GenericTestHandler_new T f c = Some h" and "return_t f \<noteq> Void"
  shows "(RunTest T h row w = Returns out w') =
     (row \<noteq> [] \<and>
      (\<exists>vs w1. ParseSerializedArgs T (arg_tuple_t f) (butlast row) w = Returns vs w1 \<and>
         ParseExpectedAndInvokeImpl_Value T h (last row) vs w1 = Returns out w'))"
proof (cases "row = []")
  case True
  have "\<not> ExpectedIsVoid T h"
    using assms constructed_ExpectedIsVoid [of T f c h] by simp
  with True show ?thesis by (simp add: RunTest_def)
next
  case False
  then show ?thesis
    using RunTest_value [OF assms False, of w]
    by (simp add: butlast_conv_take last_conv_nth split: outcome.splits)
qed

lemma RunTest_void_Returns:
  assumes "GenericTestHandler_new T f c = Some h" and "return_t f = Void"
  shows "(RunTest T h row w = Returns out w') =
     (row \<noteq> [] \<and>
      (\<exists>vs w1. ParseSerializedArgs T (arg_tuple_t f) row w = Returns vs w1 \<and>
         ParseExpectedAndInvokeImpl_Void T h (last row) vs w1 = Returns out w'))"
  using RunTest_void [OF assms, of row w]
  by (simp add: last_conv_nth split: outcome.splits)

lemma RunTest_value_Throws:
  assumes "GenericTestHandler_new T f c = Some h" and "return_t f \<noteq> Void" and "row \<noteq> []"
  shows "(RunTest T h row w = Throws x w') =
     (ParseSerializedArgs T (arg_tuple_t f) (butlast row) w = Throws x w' \<or>
      (\<exists>vs w1. ParseSerializedArgs T (arg_tuple_t f) (butlast row) w = Returns vs w1 \<and>
         ParseExpectedAndInvokeImpl_Value T h (last row) vs w1 = Throws x w'))"
  using RunTest_value [OF assms, of w] assms(3)
  by (simp add: butlast_conv_take last_conv_nth split: outcome.splits)

lemma RunTest_void_Throws:
  assumes "GenericTestHandler_new T f c = Some h" and "return_t f = Void" and "row \<noteq> []"
  shows "(RunTest T h row w = Throws x w') =
     (ParseSerializedArgs T (arg_tuple_t f) row w = Throws x w' \<or>
      (\<exists>vs w1. ParseSerializedArgs T (arg_tuple_t f) row w = Returns vs w1 \<and>
         ParseExpectedAndInvokeImpl_Void T h (last row) vs w1 = Throws x w'))"
  using RunTest_void [OF assms(1,2), of row w] assms(3)
  by (simp add: last_conv_nth split: outcome.splits)

subsection \<open>The expected value\<close>

text \<open>
  Claim C2. For a tested function that does not return \<open>void\<close>, the expected value of
  every output is the last field of the row parsed at the serialization type of the
  first parameter of a user-supplied comparator, and at the serialization type of the
  return type under the default comparator. When the arguments decode and the last field
  does not parse at that type, the run throws a deserialization error and the tested
  function has not been called.
\<close>

theorem expected_parsed_at_comparator_type:
  assumes "GenericTestHandler_new T f c = Some h" and "return_t f \<noteq> Void"
  shows "(RunTest T h row w = Returns out w' \<longrightarrow>
            expected out \<noteq> None \<and>
            expected out =
              Parse T (serialization_type T
                         (if is_DefaultComparator c then return_t f else arg1_t c)) (last row)) \<and>
         (row \<noteq> [] \<longrightarrow>
          ParseSerializedArgs T (arg_tuple_t f) (butlast row) w = Returns vs w1 \<longrightarrow>
          Parse T (serialization_type T
                     (if is_DefaultComparator c then return_t f else arg1_t c)) (last row) = None \<longrightarrow>
          (\<exists>w2. RunTest T h row w = Throws DeserializationError w2 \<and> invoked w2 = invoked w))"
proof -
  have fc: "func_m h = f" "comp_m h = c"
    using constructed_fields [OF assms(1)] by simp_all
  have ety: "expected_value_t T f c =
      serialization_type T (if is_DefaultComparator c then return_t f else arg1_t c)"
    by (simp add: expected_value_t_def has_default_comparator_def)
  have 1: "RunTest T h row w = Returns out w' \<longrightarrow>
            expected out \<noteq> None \<and>
            expected out =
              Parse T (serialization_type T
                         (if is_DefaultComparator c then return_t f else arg1_t c)) (last row)"
    using fc ety by (auto simp: RunTest_value_Returns [OF assms] Value_Returns)
  have 2: "row \<noteq> [] \<longrightarrow>
          ParseSerializedArgs T (arg_tuple_t f) (butlast row) w = Returns vs w1 \<longrightarrow>
          Parse T (serialization_type T
                     (if is_DefaultComparator c then return_t f else arg1_t c)) (last row) = None \<longrightarrow>
          (\<exists>w2. RunTest T h row w = Throws DeserializationError w2 \<and> invoked w2 = invoked w)"
  proof (intro impI)
    assume ne: "row \<noteq> []"
      and psa: "ParseSerializedArgs T (arg_tuple_t f) (butlast row) w = Returns vs w1"
      and pn: "Parse T (serialization_type T
                     (if is_DefaultComparator c then return_t f else arg1_t c)) (last row) = None"
    have inv: "invoked w1 = invoked w"
      using psa by (auto simp: ParseSerializedArgs_Returns)
    let ?w2 = "w1\<lparr>now := now w1 + int (parse_cost T (expected_value_t T f c) (last row))\<rparr>"
    have "ParseExpectedAndInvokeImpl_Value T h (last row) vs w1 = Throws DeserializationError ?w2"
      using pn fc ety by (simp add: Value_Throws)
    with psa have "RunTest T h row w = Throws DeserializationError ?w2"
      by (simp add: RunTest_value_Throws [OF assms ne])
    moreover have "invoked ?w2 = invoked w" using inv by simp
    ultimately show "\<exists>w2. RunTest T h row w = Throws DeserializationError w2 \<and> invoked w2 = invoked w"
      by blast
  qed
  from 1 2 show ?thesis by blast
qed

theorem expected_parsed_at_comparator_type_witness:
  "GenericTestHandler_new int_traits half_fn less_comp = Some half_h \<and>
   return_t half_fn \<noteq> Void \<and>
   RunTest int_traits half_h [''9'', ''3''] w0 =
     Returns \<lparr>passed = True, timer = \<lparr>start_m = 102, duration_m = 2\<rparr>,
              expected = Some 3, actual = Some 4\<rparr> \<lparr>now = 109, invoked = [[9]]\<rparr> \<and>
   Some 3 = Parse int_traits (serialization_type int_traits (arg1_t less_comp)) (last [''9'', ''3'']) \<and>
   Parse int_traits (serialization_type int_traits (return_t half_fn)) (last [''9'', ''3'']) = None \<and>
   ParseSerializedArgs int_traits (arg_tuple_t half_fn) (butlast [''9'', ''x'']) w0 =
      Returns [9] \<lparr>now = 101, invoked = []\<rparr> \<and>
   (\<exists>w2. RunTest int_traits half_h [''9'', ''x''] w0 = Throws DeserializationError w2 \<and>
         invoked w2 = invoked w0)"
  using expected_parsed_at_comparator_type [of int_traits half_fn less_comp half_h "[''9'', ''3'']" w0
      "\<lparr>passed = True, timer = \<lparr>start_m = 102, duration_m = 2\<rparr>,
              expected = Some 3, actual = Some 4\<rparr>" "\<lparr>now = 109, invoked = [[9]]\<rparr>"]
    expected_parsed_at_comparator_type [of int_traits half_fn less_comp half_h "[''9'', ''x'']" w0 _ _
       "[9]" "\<lparr>now = 101, invoked = []\<rparr>"]
  by (simp add: handler_defs run_defs instance_defs)

subsection \<open>The split of a row\<close>

text \<open>
  Claim C4. For a tested function that does not return \<open>void\<close>, \<open>RunTest\<close> on a
  non-empty row decodes the first \<open>length row - 1\<close> fields as the arguments and hands
  the field at index \<open>length row - 1\<close> on as the serialized expected value; for a
  function returning \<open>void\<close> it decodes all \<open>length row\<close> fields as the arguments.
  So whenever a run returns, the tested function has been called once more, with the
  values parsed from those fields.
\<close>

theorem RunTest_splits_row:
  assumes "GenericTestHandler_new T f c = Some h"
  shows "(return_t f \<noteq> Void \<longrightarrow> row \<noteq> [] \<longrightarrow>
            RunTest T h row w =
              (case ParseSerializedArgs T (arg_tuple_t f) (take (length row - 1) row) w of
                 Returns vs w1 \<Rightarrow>
                   ParseExpectedAndInvokeImpl_Value T h (row ! (length row - 1)) vs w1
               | Throws x w1 \<Rightarrow> Throws x w1
               | Undefined \<Rightarrow> Undefined)) \<and>
         (return_t f = Void \<longrightarrow>
            RunTest T h row w =
              (case ParseSerializedArgs T (arg_tuple_t f) (take (length row) row) w of
                 Returns vs w1 \<Rightarrow>
                   (if row = [] then Undefined
                    else ParseExpectedAndInvokeImpl_Void T h (row ! (length row - 1)) vs w1)
               | Throws x w1 \<Rightarrow> Throws x w1
               | Undefined \<Rightarrow> Undefined)) \<and>
         (RunTest T h row w = Returns out w' \<longrightarrow>
            (\<exists>vs. invoked w' = invoked w @ [vs] \<and>
               those (map2 (Parse T) (arg_tuple_t f)
                  (take (length row - (if return_t f = Void then 0 else 1)) row)) = Some vs \<and>
               (return_t f \<noteq> Void \<longrightarrow>
                  expected out = Parse T (expected_value_t T f c) (row ! (length row - 1)))))"
proof (intro conjI impI)
  assume "return_t f \<noteq> Void" and "row \<noteq> []"
  then show "RunTest T h row w =
              (case ParseSerializedArgs T (arg_tuple_t f) (take (length row - 1) row) w of
                 Returns vs w1 \<Rightarrow>
                   ParseExpectedAndInvokeImpl_Value T h (row ! (length row - 1)) vs w1
               | Throws x w1 \<Rightarrow> Throws x w1
               | Undefined \<Rightarrow> Undefined)"
    by (rule RunTest_value [OF assms])
next
  assume "return_t f = Void"
  then show "RunTest T h row w =
              (case ParseSerializedArgs T (arg_tuple_t f) (take (length row) row) w of
                 Returns vs w1 \<Rightarrow>
                   (if row = [] then Undefined
                    else ParseExpectedAndInvokeImpl_Void T h (row ! (length row - 1)) vs w1)
               | Throws x w1 \<Rightarrow> Throws x w1
               | Undefined \<Rightarrow> Undefined)"
    using RunTest_void [OF assms, of row w] by simp
next
  assume ret: "RunTest T h row w = Returns out w'"
  have fc: "func_m h = f" "comp_m h = c"
    using constructed_fields [OF assms] by simp_all
  show "\<exists>vs. invoked w' = invoked w @ [vs] \<and>
               those (map2 (Parse T) (arg_tuple_t f)
                  (take (length row - (if return_t f = Void then 0 else 1)) row)) = Some vs \<and>
               (return_t f \<noteq> Void \<longrightarrow>
                  expected out = Parse T (expected_value_t T f c) (row ! (length row - 1)))"
  proof (cases "return_t f = Void")
    case True
    from ret show ?thesis
      using True fc
      by (auto simp: RunTest_void_Returns [OF assms True] ParseSerializedArgs_Returns
          Void_Returns)
  next
    case False
    from ret show ?thesis
      using False fc
      by (auto simp: RunTest_value_Returns [OF assms False] ParseSerializedArgs_Returns
          Value_Returns butlast_conv_take last_conv_nth)
  qed
qed

theorem RunTest_splits_row_witness:
  "GenericTestHandler_new int_traits add_fn default_comp = Some add_h \<and>
   return_t add_fn \<noteq> Void \<and>
   RunTest int_traits add_h [''2'', ''3'', ''5''] w0 =
     Returns \<lparr>passed = True, timer = \<lparr>start_m = 103, duration_m = 7\<rparr>,
              expected = Some 5, actual = Some 5\<rparr> \<lparr>now = 112, invoked = [[2, 3]]\<rparr> \<and>
   those (map2 (Parse int_traits) (arg_tuple_t add_fn) (take 2 [''2'', ''3'', ''5''])) = Some [2, 3] \<and>
   Some 5 = Parse int_traits (expected_value_t int_traits add_fn default_comp)
              ([''2'', ''3'', ''5''] ! 2) \<and>
   GenericTestHandler_new int_traits check_fn default_comp = Some check_h \<and>
   return_t check_fn = Void \<and>
   RunTest int_traits check_h [''7''] w0 =
     Returns \<lparr>passed = True, timer = \<lparr>start_m = 101, duration_m = 3\<rparr>,
              expected = None, actual = None\<rparr> \<lparr>now = 104, invoked = [[7]]\<rparr> \<and>
   those (map2 (Parse int_traits) (arg_tuple_t check_fn) (take 1 [''7''])) = Some [7]"
proof -
  have con: "GenericTestHandler_new int_traits add_fn default_comp = Some add_h"
    by (simp add: handler_defs instance_defs)
  have con': "GenericTestHandler_new int_traits check_fn default_comp = Some check_h"
    by (simp add: handler_defs instance_defs)
  have run: "RunTest int_traits add_h [''2'', ''3'', ''5''] w0 =
     Returns \<lparr>passed = True, timer = \<lparr>start_m = 103, duration_m = 7\<rparr>,
              expected = Some 5, actual = Some 5\<rparr> \<lparr>now = 112, invoked = [[2, 3]]\<rparr>"
    by (simp add: handler_defs run_defs instance_defs)
  have run': "RunTest int_traits check_h [''7''] w0 =
     Returns \<lparr>passed = True, timer = \<lparr>start_m = 101, duration_m = 3\<rparr>,
              expected = None, actual = None\<rparr> \<lparr>now = 104, invoked = [[7]]\<rparr>"
    by (simp add: handler_defs run_defs instance_defs)
  have nv: "return_t add_fn \<noteq> Void" by (simp add: add_fn_def)
  have v: "return_t check_fn = Void" by (simp add: check_fn_def)
  have a: "\<exists>vs. invoked \<lparr>now = 112, invoked = [[2, 3]]\<rparr> = invoked w0 @ [vs] \<and>
      those (map2 (Parse int_traits) (arg_tuple_t add_fn) (take 2 [''2'', ''3'', ''5''])) = Some vs \<and>
      Some 5 = Parse int_traits (expected_value_t int_traits add_fn default_comp)
              ([''2'', ''3'', ''5''] ! 2)"
    using RunTest_splits_row [OF con, of "[''2'', ''3'', ''5'']" w0
        "\<lparr>passed = True, timer = \<lparr>start_m = 103, duration_m = 7\<rparr>,
              expected = Some 5, actual = Some 5\<rparr>" "\<lparr>now = 112, invoked = [[2, 3]]\<rparr>"]
      run nv by simp
  have b: "\<exists>vs. invoked \<lparr>now = 104, invoked = [[7]]\<rparr> = invoked w0 @ [vs] \<and>
      those (map2 (Parse int_traits) (arg_tuple_t check_fn) (take 1 [''7''])) = Some vs"
    using RunTest_splits_row [OF con', of "[''7'']" w0
        "\<lparr>passed = True, timer = \<lparr>start_m = 101, duration_m = 3\<rparr>,
              expected = None, actual = None\<rparr>" "\<lparr>now = 104, invoked = [[7]]\<rparr>"]
      run' v by simp
  from a b con con' run run' nv v show ?thesis
    by (auto simp: w0_def)
qed

subsection \<open>The output of a run\<close>

text \<open>
  Claim C5. An output of \<open>RunTest\<close> for a function returning \<open>void\<close> holds neither
  an expected nor an actual value; an output for any other function holds both. And for
  such a function an output is produced whenever the arguments and the expected value
  decode and the call returns: it holds the decoded expected value and the result.
\<close>

theorem TestOutput_values_populated:
  assumes "GenericTestHandler_new T f c = Some h"
  shows "(RunTest T h row w = Returns out w' \<longrightarrow>
            (return_t f = Void \<longrightarrow> expected out = None \<and> actual out = None) \<and>
            (return_t f \<noteq> Void \<longrightarrow> expected out \<noteq> None \<and> actual out \<noteq> None)) \<and>
         (return_t f \<noteq> Void \<longrightarrow> row \<noteq> [] \<longrightarrow>
          ParseSerializedArgs T (arg_tuple_t f) (butlast row) w = Returns vs w1 \<longrightarrow>
          Parse T (expected_value_t T f c) (last row) = Some ex \<longrightarrow>
          body f vs = Inr r \<longrightarrow>
          (\<exists>out w'. RunTest T h row w = Returns out w' \<and>
             expected out = Some ex \<and> actual out = Some r))"
proof -
  have fc: "func_m h = f" "comp_m h = c"
    using constructed_fields [OF assms] by simp_all
  have 1: "RunTest T h row w = Returns out w' \<longrightarrow>
            (return_t f = Void \<longrightarrow> expected out = None \<and> actual out = None) \<and>
            (return_t f \<noteq> Void \<longrightarrow> expected out \<noteq> None \<and> actual out \<noteq> None)"
  proof (cases "return_t f = Void")
    case True
    then show ?thesis
      by (auto simp: RunTest_void_Returns [OF assms True] Void_Returns)
  next
    case False
    then show ?thesis
      by (auto simp: RunTest_value_Returns [OF assms False] Value_Returns)
  qed
  have 2: "return_t f \<noteq> Void \<longrightarrow> row \<noteq> [] \<longrightarrow>
          ParseSerializedArgs T (arg_tuple_t f) (butlast row) w = Returns vs w1 \<longrightarrow>
          Parse T (expected_value_t T f c) (last row) = Some ex \<longrightarrow>
          body f vs = Inr r \<longrightarrow>
          (\<exists>out w'. RunTest T h row w = Returns out w' \<and>
             expected out = Some ex \<and> actual out = Some r)"
  proof (intro impI)
    assume nv: "return_t f \<noteq> Void" and ne: "row \<noteq> []"
      and psa: "ParseSerializedArgs T (arg_tuple_t f) (butlast row) w = Returns vs w1"
      and pe: "Parse T (expected_value_t T f c) (last row) = Some ex"
      and b: "body f vs = Inr r"
    from pe b fc obtain out w' where
      v: "ParseExpectedAndInvokeImpl_Value T h (last row) vs w1 = Returns out w'"
      and o: "expected out = Some ex" "actual out = Some r"
      by (simp add: Value_Returns)
    from psa v ne have "RunTest T h row w = Returns out w'"
      by (auto simp: RunTest_value_Returns [OF assms nv])
    with o show "\<exists>out w'. RunTest T h row w = Returns out w' \<and>
             expected out = Some ex \<and> actual out = Some r"
      by blast
  qed
  from 1 2 show ?thesis by blast
qed

theorem TestOutput_values_populated_witness:
  "GenericTestHandler_new int_traits add_fn default_comp = Some add_h \<and>
   return_t add_fn \<noteq> Void \<and> [''2'', ''3'', ''6''] \<noteq> [] \<and>
   ParseSerializedArgs int_traits (arg_tuple_t add_fn) (butlast [''2'', ''3'', ''6'']) w0 =
     Returns [2, 3] \<lparr>now = 102, invoked = []\<rparr> \<and>
   Parse int_traits (expected_value_t int_traits add_fn default_comp) (last [''2'', ''3'', ''6'']) = Some 6 \<and>
   body add_fn [2, 3] = Inr 5 \<and>
   (\<exists>out w'. RunTest int_traits add_h [''2'', ''3'', ''6''] w0 = Returns out w' \<and>
      expected out = Some 6 \<and> actual out = Some 5) \<and>
   GenericTestHandler_new int_traits check_fn default_comp = Some check_h \<and>
   return_t check_fn = Void \<and>
   RunTest int_traits check_h [''7''] w0 =
     Returns \<lparr>passed = True, timer = \<lparr>start_m = 101, duration_m = 3\<rparr>,
              expected = None, actual = None\<rparr> \<lparr>now = 104, invoked = [[7]]\<rparr>"
proof -
  have con: "GenericTestHandler_new int_traits add_fn default_comp = Some add_h"
    by (simp add: handler_defs instance_defs)
  have con': "GenericTestHandler_new int_traits check_fn default_comp = Some check_h"
    by (simp add: handler_defs instance_defs)
  have nv: "return_t add_fn \<noteq> Void" by (simp add: add_fn_def)
  have psa: "ParseSerializedArgs int_traits (arg_tuple_t add_fn) (butlast [''2'', ''3'', ''6'']) w0 =
     Returns [2, 3] \<lparr>now = 102, invoked = []\<rparr>"
    by (simp add: run_defs instance_defs)
  have pe: "Parse int_traits (expected_value_t int_traits add_fn default_comp)
      (last [''2'', ''3'', ''6'']) = Some 6"
    by (simp add: handler_defs instance_defs)
  have b: "body add_fn [2, 3] = Inr 5" by (simp add: add_fn_def)
  have v: "return_t check_fn = Void" by (simp add: check_fn_def)
  have run': "RunTest int_traits check_h [''7''] w0 =
     Returns \<lparr>passed = True, timer = \<lparr>start_m = 101, duration_m = 3\<rparr>,
              expected = None, actual = None\<rparr> \<lparr>now = 104, invoked = [[7]]\<rparr>"
    by (simp add: handler_defs run_defs instance_defs)
  have a: "\<exists>out w'. RunTest int_traits add_h [''2'', ''3'', ''6''] w0 = Returns out w' \<and>
      expected out = Some 6 \<and> actual out = Some 5"
    using TestOutput_values_populated [OF con, of "[''2'', ''3'', ''6'']" w0 _ _ "[2, 3]"
        "\<lparr>now = 102, invoked = []\<rparr>" 6 5] nv psa pe b
    by simp
  from a con con' nv psa pe b v run' show ?thesis by simp
qed

text \<open>
  Claim C6. For a tested function that does not return \<open>void\<close>, when the arguments and
  the expected value decode and the call returns, the run returns an output whose
  verdict is the comparator applied to the decoded expected value, first, and the result
  of the call, second. For a function returning \<open>void\<close>, when the arguments decode and
  the call returns, the run returns an output whose verdict is true. Every output that a
  run returns is of these two kinds.
\<close>

theorem passed_is_comparator_result:
  assumes "GenericTestHandler_new T f c = Some h"
  shows "(return_t f \<noteq> Void \<longrightarrow> row \<noteq> [] \<longrightarrow>
          ParseSerializedArgs T (arg_tuple_t f) (butlast row) w = Returns vs w1 \<longrightarrow>
          Parse T (expected_value_t T f c) (last row) = Some ex \<longrightarrow>
          body f vs = Inr r \<longrightarrow>
          (\<exists>out w'. RunTest T h row w = Returns out w' \<and> passed out = call c ex r)) \<and>
         (return_t f = Void \<longrightarrow> row \<noteq> [] \<longrightarrow>
          ParseSerializedArgs T (arg_tuple_t f) row w = Returns vs w1 \<longrightarrow>
          body f vs = Inr r \<longrightarrow>
          (\<exists>out w'. RunTest T h row w = Returns out w' \<and> passed out)) \<and>
         (RunTest T h row w = Returns out w' \<longrightarrow>
            (return_t f = Void \<longrightarrow> passed out) \<and>
            (return_t f \<noteq> Void \<longrightarrow>
               (\<exists>ex r vs. Parse T (expected_value_t T f c) (last row) = Some ex \<and>
                  invoked w' = invoked w @ [vs] \<and> body f vs = Inr r \<and>
                  expected out = Some ex \<and> actual out = Some r \<and>
                  passed out = call c ex r)))"
proof -
  have fc: "func_m h = f" "comp_m h = c"
    using constructed_fields [OF assms] by simp_all
  have 1: "return_t f \<noteq> Void \<longrightarrow> row \<noteq> [] \<longrightarrow>
          ParseSerializedArgs T (arg_tuple_t f) (butlast row) w = Returns vs w1 \<longrightarrow>
          Parse T (expected_value_t T f c) (last row) = Some ex \<longrightarrow>
          body f vs = Inr r \<longrightarrow>
          (\<exists>out w'. RunTest T h row w = Returns out w' \<and> passed out = call c ex r)"
  proof (intro impI)
    assume nv: "return_t f \<noteq> Void" and ne: "row \<noteq> []"
      and psa: "ParseSerializedArgs T (arg_tuple_t f) (butlast row) w = Returns vs w1"
      and pe: "Parse T (expected_value_t T f c) (last row) = Some ex"
      and b: "body f vs = Inr r"
    from pe b fc obtain out w' where
      v: "ParseExpectedAndInvokeImpl_Value T h (last row) vs w1 = Returns out w'"
      and o: "passed out = call c ex r"
      by (simp add: Value_Returns)
    from psa v ne have "RunTest T h row w = Returns out w'"
      by (auto simp: RunTest_value_Returns [OF assms nv])
    with o show "\<exists>out w'. RunTest T h row w = Returns out w' \<and> passed out = call c ex r"
      by blast
  qed
  have 2: "return_t f = Void \<longrightarrow> row \<noteq> [] \<longrightarrow>
          ParseSerializedArgs T (arg_tuple_t f) row w = Returns vs w1 \<longrightarrow>
          body f vs = Inr r \<longrightarrow>
          (\<exists>out w'. RunTest T h row w = Returns out w' \<and> passed out)"
  proof (intro impI)
    assume v: "return_t f = Void" and ne: "row \<noteq> []"
      and psa: "ParseSerializedArgs T (arg_tuple_t f) row w = Returns vs w1"
      and b: "body f vs = Inr r"
    from b fc obtain out w' where
      i: "ParseExpectedAndInvokeImpl_Void T h (last row) vs w1 = Returns out w'"
      and o: "passed out"
      by (simp add: Void_Returns)
    from psa i ne have "RunTest T h row w = Returns out w'"
      by (auto simp: RunTest_void_Returns [OF assms v])
    with o show "\<exists>out w'. RunTest T h row w = Returns out w' \<and> passed out"
      by blast
  qed
  have 3: "RunTest T h row w = Returns out w' \<longrightarrow>
            (return_t f = Void \<longrightarrow> passed out) \<and>
            (return_t f \<noteq> Void \<longrightarrow>
               (\<exists>ex r vs. Parse T (expected_value_t T f c) (last row) = Some ex \<and>
                  invoked w' = invoked w @ [vs] \<and> body f vs = Inr r \<and>
                  expected out = Some ex \<and> actual out = Some r \<and>
                  passed out = call c ex r))"
  proof (cases "return_t f = Void")
    case True
    then show ?thesis
      by (auto simp: RunTest_void_Returns [OF assms True] Void_Returns)
  next
    case False
    then show ?thesis
      using fc
      by (auto simp: RunTest_value_Returns [OF assms False] Value_Returns
          ParseSerializedArgs_Returns)
  qed
  from 1 2 3 show ?thesis by blast
qed

theorem passed_is_comparator_result_witness:
  "GenericTestHandler_new int_traits half_fn less_comp = Some half_h \<and>
   return_t half_fn \<noteq> Void \<and> [''9'', ''3''] \<noteq> [] \<and>
   ParseSerializedArgs int_traits (arg_tuple_t half_fn) (butlast [''9'', ''3'']) w0 =
     Returns [9] \<lparr>now = 101, invoked = []\<rparr> \<and>
   Parse int_traits (expected_value_t int_traits half_fn less_comp) (last [''9'', ''3'']) = Some 3 \<and>
   body half_fn [9] = Inr 4 \<and>
   call less_comp 3 4 \<and> \<not> call less_comp 4 3 \<and>
   (\<exists>out w'. RunTest int_traits half_h [''9'', ''3''] w0 = Returns out w' \<and> passed out) \<and>
   GenericTestHandler_new int_traits check_fn default_comp = Some check_h \<and>
   return_t check_fn = Void \<and> [''7''] \<noteq> [] \<and>
   ParseSerializedArgs int_traits (arg_tuple_t check_fn) [''7''] w0 =
     Returns [7] \<lparr>now = 101, invoked = []\<rparr> \<and>
   body check_fn [7] = Inr 0 \<and>
   (\<exists>out w'. RunTest int_traits check_h [''7''] w0 = Returns out w' \<and> passed out)"
proof -
  have con: "GenericTestHandler_new int_traits half_fn less_comp = Some half_h"
    by (simp add: handler_defs instance_defs)
  have con': "GenericTestHandler_new int_traits check_fn default_comp = Some check_h"
    by (simp add: handler_defs instance_defs)
  have nv: "return_t half_fn \<noteq> Void" by (simp add: half_fn_def)
  have psa: "ParseSerializedArgs int_traits (arg_tuple_t half_fn) (butlast [''9'', ''3'']) w0 =
     Returns [9] \<lparr>now = 101, invoked = []\<rparr>"
    by (simp add: run_defs instance_defs)
  have pe: "Parse int_traits (expected_value_t int_traits half_fn less_comp)
      (last [''9'', ''3'']) = Some 3"
    by (simp add: handler_defs instance_defs)
  have b: "body half_fn [9] = Inr 4" by (simp add: half_fn_def)
  have cmp: "call less_comp 3 4 \<and> \<not> call less_comp 4 3" by (simp add: less_comp_def)
  have v: "return_t check_fn = Void" by (simp add: check_fn_def)
  have psa': "ParseSerializedArgs int_traits (arg_tuple_t check_fn) [''7''] w0 =
     Returns [7] \<lparr>now = 101, invoked = []\<rparr>"
    by (simp add: run_defs instance_defs)
  have b': "body check_fn [7] = Inr 0" by (simp add: check_fn_def)
  have a1: "\<exists>out w'. RunTest int_traits half_h [''9'', ''3''] w0 = Returns out w' \<and> passed out"
    using passed_is_comparator_result [OF con, of "[''9'', ''3'']" w0 "[9]"
        "\<lparr>now = 101, invoked = []\<rparr>" 3 4] nv psa pe b cmp
    by simp
  have a2: "\<exists>out w'. RunTest int_traits check_h [''7''] w0 = Returns out w' \<and> passed out"
    using passed_is_comparator_result [OF con', of "[''7'']" w0 "[7]"
        "\<lparr>now = 101, invoked = []\<rparr>" 0] v psa' b'
    by simp
  from a1 a2 con con' nv psa pe b cmp v psa' b' show ?thesis by simp
qed

subsection \<open>Rows that do not decode, functions that throw\<close>

text \<open>
  Claim C7. When some argument field of a row cannot be parsed as the type of its
  position, \<open>RunTest\<close> throws a deserialization error, the tested function has not been
  called, there is no output, and the loop over the rows stops at this row with the
  error as its abort signal, whatever rows follow.
\<close>

theorem unparsable_argument_aborts:
  assumes "GenericTestHandler_new T f c = Some h"
    and "i < length row - (if return_t f = Void then 0 else 1)"
    and "i < length (arg_tuple_t f)"
    and "Parse T (arg_tuple_t f ! i) (row ! i) = None"
  shows "\<exists>w'. RunTest T h row w = Throws DeserializationError w' \<and>
              invoked w' = invoked w \<and>
              RunTests T h (row # rows) w = Returns ([], Some DeserializationError) w'"
proof -
  let ?n = "length row - (if return_t f = Void then 0 else 1)"
  have ne: "row \<noteq> []" using assms(2) by auto
  have i: "i < length (take ?n row)" using assms(2) by simp
  have p: "Parse T (arg_tuple_t f ! i) (take ?n row ! i) = None"
    using assms(2,4) by simp
  from ParseSerializedArgs_unparsable [OF i assms(3) p, of w]
  obtain w1 where
    psa: "ParseSerializedArgs T (arg_tuple_t f) (take ?n row) w = Throws DeserializationError w1"
    and inv: "invoked w1 = invoked w"
    by blast
  have run: "RunTest T h row w = Throws DeserializationError w1"
  proof (cases "return_t f = Void")
    case True
    with psa show ?thesis
      by (simp add: RunTest_void_Throws [OF assms(1) True ne])
  next
    case False
    with psa show ?thesis
      by (simp add: RunTest_value_Throws [OF assms(1) False ne] butlast_conv_take)
  qed
  then have "RunTests T h (row # rows) w = Returns ([], Some DeserializationError) w1"
    by simp
  with run inv show ?thesis by blast
qed

theorem unparsable_argument_aborts_witness:
  "GenericTestHandler_new int_traits add_fn default_comp = Some add_h \<and>
   (1::nat) < length [''2'', ''abc'', ''5''] - (if return_t add_fn = Void then 0 else 1) \<and>
   (1::nat) < length (arg_tuple_t add_fn) \<and>
   Parse int_traits (arg_tuple_t add_fn ! 1) ([''2'', ''abc'', ''5''] ! 1) = None \<and>
   (\<exists>w'. RunTest int_traits add_h [''2'', ''abc'', ''5''] w0 = Throws DeserializationError w' \<and>
         invoked w' = invoked w0 \<and>
         RunTests int_traits add_h [[''2'', ''abc'', ''5''], [''2'', ''3'', ''5'']] w0 =
           Returns ([], Some DeserializationError) w')"
proof -
  have con: "GenericTestHandler_new int_traits add_fn default_comp = Some add_h"
    by (simp add: handler_defs instance_defs)
  have i: "(1::nat) < length [''2'', ''abc'', ''5''] - (if return_t add_fn = Void then 0 else 1)"
    by (simp add: add_fn_def)
  have j: "(1::nat) < length (arg_tuple_t add_fn)" by (simp add: add_fn_def)
  have p: "Parse int_traits (arg_tuple_t add_fn ! 1) ([''2'', ''abc'', ''5''] ! 1) = None"
    by (simp add: instance_defs)
  from unparsable_argument_aborts [OF con i j p, of w0 "[[''2'', ''3'', ''5'']]"] con i j p
  show ?thesis by simp
qed

text \<open>
  Claim C8. When the row decodes and the tested function throws, \<open>RunTest\<close> throws the
  same exception after the call: it catches nothing. In the loop over the rows, a
  \<open>TestFailureException\<close> marks the row failed and the loop goes on with the rows that
  follow; any other exception stops the loop at this row, with the exception as the
  abort signal.
\<close>

theorem function_exception_propagates:
  assumes "GenericTestHandler_new T f c = Some h"
    and "row \<noteq> []"
    and "ParseSerializedArgs T (arg_tuple_t f)
           (take (length row - (if return_t f = Void then 0 else 1)) row) w = Returns vs w1"
    and "return_t f \<noteq> Void \<longrightarrow> Parse T (expected_value_t T f c) (last row) \<noteq> None"
    and "body f vs = Inl e"
  shows "\<exists>w'. RunTest T h row w = Throws e w' \<and>
              invoked w' = invoked w @ [vs] \<and>
              (e = TestFailureException \<longrightarrow>
                 RunTests T h (row # rows) w = judged Failed (RunTests T h rows w')) \<and>
              (e \<noteq> TestFailureException \<longrightarrow>
                 RunTests T h (row # rows) w = Returns ([], Some e) w')"
proof -
  have fc: "func_m h = f" "comp_m h = c"
    using constructed_fields [OF assms(1)] by simp_all
  have inv: "invoked w1 = invoked w"
    using assms(3) by (auto simp: ParseSerializedArgs_Returns)
  have "\<exists>w'. RunTest T h row w = Throws e w' \<and> invoked w' = invoked w @ [vs]"
  proof (cases "return_t f = Void")
    case True
    let ?w' = "\<lparr>now = now w1 + int (run_cost f vs), invoked = invoked w1 @ [vs]\<rparr>"
    have "ParseExpectedAndInvokeImpl_Void T h (last row) vs w1 = Throws e ?w'"
      using assms(5) fc by (simp add: Void_Throws)
    with assms(3) True have "RunTest T h row w = Throws e ?w'"
      by (simp add: RunTest_void_Throws [OF assms(1) True assms(2)])
    with inv show ?thesis by auto
  next
    case False
    with assms(4) obtain ex where ex: "Parse T (expected_value_t T f c) (last row) = Some ex"
      by auto
    let ?w' = "\<lparr>now = now w1 + int (parse_cost T (expected_value_t T f c) (last row))
                       + int (run_cost f vs),
                 invoked = invoked w1 @ [vs]\<rparr>"
    have "ParseExpectedAndInvokeImpl_Value T h (last row) vs w1 = Throws e ?w'"
      using assms(5) fc ex by (simp add: Value_Throws)
    with assms(3) False have "RunTest T h row w = Throws e ?w'"
      by (simp add: RunTest_value_Throws [OF assms(1) False assms(2)] butlast_conv_take)
    with inv show ?thesis by auto
  qed
  then obtain w' where run: "RunTest T h row w = Throws e w'"
    and inv': "invoked w' = invoked w @ [vs]"
    by blast
  from run have "e = TestFailureException \<longrightarrow>
      RunTests T h (row # rows) w = judged Failed (RunTests T h rows w')"
    by simp
  moreover from run have "e \<noteq> TestFailureException \<longrightarrow>
      RunTests T h (row # rows) w = Returns ([], Some e) w'"
    by simp
  ultimately show ?thesis using run inv' by blast
qed

theorem function_exception_propagates_witness:
  "GenericTestHandler_new int_traits check_fn default_comp = Some check_h \<and>
   [''0''] \<noteq> [] \<and>
   ParseSerializedArgs int_traits (arg_tuple_t check_fn)
     (take (length [''0''] - (if return_t check_fn = Void then 0 else 1)) [''0'']) w0 =
     Returns [0] \<lparr>now = 101, invoked = []\<rparr> \<and>
   body check_fn [0] = Inl TestFailureException \<and>
   (\<exists>w'. RunTest int_traits check_h [''0''] w0 = Throws TestFailureException w' \<and>
      invoked w' = invoked w0 @ [[0]] \<and>
      RunTests int_traits check_h [[''0''], [''7'']] w0 =
        judged Failed (RunTests int_traits check_h [[''7'']] w')) \<and>
   RunTests int_traits check_h [[''0''], [''7'']] w0 =
     Returns ([Failed, Passed], None) \<lparr>now = 108, invoked = [[0], [7]]\<rparr> \<and>
   ParseSerializedArgs int_traits (arg_tuple_t check_fn)
     (take (length [''1''] - (if return_t check_fn = Void then 0 else 1)) [''1'']) w0 =
     Returns [1] \<lparr>now = 101, invoked = []\<rparr> \<and>
   body check_fn [1] = Inl (OtherException ''bad_alloc'') \<and>
   (\<exists>w'. RunTest int_traits check_h [''1''] w0 = Throws (OtherException ''bad_alloc'') w' \<and>
      invoked w' = invoked w0 @ [[1]] \<and>
      RunTests int_traits check_h [[''1''], [''7'']] w0 =
        Returns ([], Some (OtherException ''bad_alloc'')) w')"
proof -
  have con: "GenericTestHandler_new int_traits check_fn default_comp = Some check_h"
    by (simp add: handler_defs instance_defs)
  have v: "return_t check_fn \<noteq> Void \<longrightarrow>
      Parse int_traits (expected_value_t int_traits check_fn default_comp) (last [''0'']) \<noteq> None"
    by (simp add: check_fn_def)
  have v': "return_t check_fn \<noteq> Void \<longrightarrow>
      Parse int_traits (expected_value_t int_traits check_fn default_comp) (last [''1'']) \<noteq> None"
    by (simp add: check_fn_def)
  have ne: "[''0''] \<noteq> []" "[''1''] \<noteq> []" by simp_all
  have psa0: "ParseSerializedArgs int_traits (arg_tuple_t check_fn)
     (take (length [''0''] - (if return_t check_fn = Void then 0 else 1)) [''0'']) w0 =
     Returns [0] \<lparr>now = 101, invoked = []\<rparr>"
    by (simp add: run_defs instance_defs)
  have psa1: "ParseSerializedArgs int_traits (arg_tuple_t check_fn)
     (take (length [''1''] - (if return_t check_fn = Void then 0 else 1)) [''1'']) w0 =
     Returns [1] \<lparr>now = 101, invoked = []\<rparr>"
    by (simp add: run_defs instance_defs)
  have b0: "body check_fn [0] = Inl TestFailureException" by (simp add: check_fn_def)
  have b1: "body check_fn [1] = Inl (OtherException ''bad_alloc'')" by (simp add: check_fn_def)
  have suite: "RunTests int_traits check_h [[''0''], [''7'']] w0 =
     Returns ([Failed, Passed], None) \<lparr>now = 108, invoked = [[0], [7]]\<rparr>"
    by (simp add: handler_defs run_defs instance_defs)
  from function_exception_propagates [OF con ne(1) psa0 v b0, of "[[''7'']]"]
  have a0: "\<exists>w'. RunTest int_traits check_h [''0''] w0 = Throws TestFailureException w' \<and>
      invoked w' = invoked w0 @ [[0]] \<and>
      RunTests int_traits check_h [[''0''], [''7'']] w0 =
        judged Failed (RunTests int_traits check_h [[''7'']] w')"
    by simp
  from function_exception_propagates [OF con ne(2) psa1 v' b1, of "[[''7'']]"]
  have a1: "\<exists>w'. RunTest int_traits check_h [''1''] w0 = Throws (OtherException ''bad_alloc'') w' \<and>
      invoked w' = invoked w0 @ [[1]] \<and>
      RunTests int_traits check_h [[''1''], [''7'']] w0 =
        Returns ([], Some (OtherException ''bad_alloc'')) w'"
    by simp
  from a0 a1 con psa0 psa1 b0 b1 suite show ?thesis by simp
qed

subsection \<open>The measured time\<close>

text \<open>
  Claim C9. In every output the elapsed time is not negative and is exactly the time the
  call of the tested function took. The timer starts when all parsing, of the arguments
  and of the expected value, is over, and the clock at the end of the run is the start
  plus the elapsed time plus the time of the comparison: neither the parsing nor the
  comparison falls into the measured window.
\<close>

theorem elapsed_is_invocation_time:
  assumes "GenericTestHandler_new T f c = Some h"
    and "RunTest T h row w = Returns out w'"
  shows "\<exists>vs. invoked w' = invoked w @ [vs] \<and>
           elapsed out = int (run_cost f vs) \<and>
           0 \<le> elapsed out \<and>
           start_m (timer out) =
             now w
             + int (sum_list (map2 (parse_cost T) (arg_tuple_t f)
                      (take (length row - (if return_t f = Void then 0 else 1)) row)))
             + (if return_t f = Void then 0
                else int (parse_cost T (expected_value_t T f c) (last row))) \<and>
           now w' =
             start_m (timer out) + elapsed out
             + (if return_t f = Void then 0
                else int (comp_cost c (the (expected out)) (the (actual out))))"
proof -
  have fc: "func_m h = f" "comp_m h = c"
    using constructed_fields [OF assms(1)] by simp_all
  show ?thesis
  proof (cases "return_t f = Void")
    case True
    from assms(2) show ?thesis
      using True fc
      by (auto simp: RunTest_void_Returns [OF assms(1) True] ParseSerializedArgs_Returns
          Void_Returns elapsed_def)
  next
    case False
    from assms(2) show ?thesis
      using False fc
      by (auto simp: RunTest_value_Returns [OF assms(1) False] ParseSerializedArgs_Returns
          Value_Returns elapsed_def butlast_conv_take)
  qed
qed

theorem elapsed_is_invocation_time_witness:
  "GenericTestHandler_new int_traits add_fn default_comp = Some add_h \<and>
   RunTest int_traits add_h [''2'', ''3'', ''5''] w0 =
     Returns \<lparr>passed = True, timer = \<lparr>start_m = 103, duration_m = 7\<rparr>,
              expected = Some 5, actual = Some 5\<rparr> \<lparr>now = 112, invoked = [[2, 3]]\<rparr> \<and>
   now w0 = 100 \<and>
   parse_cost int_traits (NonVoid ''int'') ''2'' + parse_cost int_traits (NonVoid ''int'') ''3'' = 2 \<and>
   parse_cost int_traits (NonVoid ''int'') ''5'' = 1 \<and>
   run_cost add_fn [2, 3] = 7 \<and> comp_cost default_comp 5 5 = 2 \<and>
   (\<exists>vs. [[2, 3]] = invoked w0 @ [vs] \<and>
      elapsed \<lparr>passed = True, timer = \<lparr>start_m = 103, duration_m = 7\<rparr>,
               expected = Some (5::int), actual = Some 5\<rparr> = int (run_cost add_fn vs))"
proof -
  have con: "GenericTestHandler_new int_traits add_fn default_comp = Some add_h"
    by (simp add: handler_defs instance_defs)
  have run: "RunTest int_traits add_h [''2'', ''3'', ''5''] w0 =
     Returns \<lparr>passed = True, timer = \<lparr>start_m = 103, duration_m = 7\<rparr>,
              expected = Some 5, actual = Some 5\<rparr> \<lparr>now = 112, invoked = [[2, 3]]\<rparr>"
    by (simp add: handler_defs run_defs instance_defs)
  have costs: "now w0 = 100 \<and>
   parse_cost int_traits (NonVoid ''int'') ''2'' + parse_cost int_traits (NonVoid ''int'') ''3'' = 2 \<and>
   parse_cost int_traits (NonVoid ''int'') ''5'' = 1 \<and>
   run_cost add_fn [2, 3] = 7 \<and> comp_cost default_comp 5 5 = 2"
    by (simp add: instance_defs)
  from elapsed_is_invocation_time [OF con run]
  have "\<exists>vs. [[2, 3]] = invoked w0 @ [vs] \<and>
      elapsed \<lparr>passed = True, timer = \<lparr>start_m = 103, duration_m = 7\<rparr>,
               expected = Some (5::int), actual = Some 5\<rparr> = int (run_cost add_fn vs)"
    by auto
  with con run costs show ?thesis by simp
qed

end
